theory Spec2Isabelle
  imports Main
begin

section \<open>SyncSession: the facade over the sync engine's session handle\<close>

text \<open>
  A shallow embedding of \<^verbatim>\<open>packages/realm/src/app-services/SyncSession.ts\<close>.
  Every \<^verbatim>\<open>throw\<close> of the source is an \<open>Inl\<close> of a result; the two module-level
  listener registries and the calls made on the engine are explicit state.
\<close>

subsection \<open>Public enumerations\<close>

text \<open>
  \<^verbatim>\<open>ProgressDirection\<close> and \<^verbatim>\<open>ProgressMode\<close> are inputs of the facade. A JavaScript
  caller can pass a value that is no member of the enum, which is what the last branch of
  \<^verbatim>\<open>toBindingDirection\<close> is for: \<open>UnexpectedDirection v\<close> and \<open>UnexpectedMode v\<close> stand
  for such a value, \<open>v\<close> being its text in a template literal.
\<close>

datatype ProgressDirection = Download | Upload | UnexpectedDirection string

datatype ProgressMode = ReportIndefinitely | ForCurrentlyOutstandingWork | UnexpectedMode string

datatype ConnectionState = Disconnected | Connecting | Connected

datatype SessionState = Invalid | Active | Inactive

subsection \<open>The engine's enumerations\<close>

text \<open>
  Modelled from the spec: the declarations of \<^verbatim>\<open>binding.ProgressDirection\<close>,
  \<^verbatim>\<open>binding.SyncSessionConnectionState\<close> and \<^verbatim>\<open>binding.SyncSessionState\<close> are
  not part of the source file. The members are the ones the source names
  (\<^verbatim>\<open>download\<close>, \<^verbatim>\<open>upload\<close>; \<^verbatim>\<open>Connected\<close>, \<^verbatim>\<open>Connecting\<close>, \<^verbatim>\<open>Disconnected\<close>;
  \<^verbatim>\<open>Inactive\<close>, \<^verbatim>\<open>Active\<close>, \<^verbatim>\<open>Dying\<close>) and the engine session state
  \<^verbatim>\<open>Invalid\<close> of the spec's truth table. At run time an engine enumeration is a native
  numeric code, so each type has one more constructor for "an engine value outside the
  known set": a code different from the codes of the named members.
\<close>

datatype binding_ProgressDirection = B_download | B_upload

datatype binding_SyncSessionConnectionState =
  B_Disconnected | B_Connecting | B_Connected | B_UnknownConnectionState int

datatype binding_SyncSessionState =
  B_Active | B_Inactive | B_Invalid | B_Dying | B_UnknownSessionState int

subsection \<open>Errors\<close>

text \<open>
  The source throws plain \<^verbatim>\<open>Error\<close> objects. The constructors below are the names the
  specification gives to the throw sites; where the source builds the message, the
  constructor carries it.
  \<^item> \<open>UnrecognizedEnumValue\<close>: \<^verbatim>\<open>Unexpected direction: ...\<close> and \<^verbatim>\<open>Unexpected state: ...\<close>;
  \<^item> \<open>DuplicateRegistration\<close>: thrown by the listener registry on a second \<^verbatim>\<open>add\<close>;
  \<^item> \<open>UrlUnavailable\<close>: \<^verbatim>\<open>Unable to determine URL\<close>;
  \<^item> \<open>ConfigDecodeError\<close>: whatever \<^verbatim>\<open>EJSON.parse\<close> throws on a malformed text;
  \<^item> \<open>Timeout\<close>: the rejection of a deadline-bound wait, with the timeout message;
  \<^item> \<open>EngineFailure\<close>: the rejection of a completion signal by the engine itself.
\<close>

datatype error =
    UnrecognizedEnumValue string
  | DuplicateRegistration
  | UrlUnavailable string
  | ConfigDecodeError
  | Timeout string
  | EngineFailure string

subsection \<open>Numbers in template literals\<close>

text \<open>
  A JavaScript number is a double. \<^verbatim>\<open>${n}\<close> prints the shortest digits that read back
  as the same double: for a whole number of magnitude at most \<open>2^53\<close>, where every
  integer is a double of its own, these are its exact decimal digits, with a leading
  minus sign when negative. Above \<open>2^53\<close> the printed digits are rounded (\<open>2^64\<close> prints
  as 18446744073709552000), so \<open>digits\<close> and \<open>number_text\<close> stand for the template
  literal only up to \<open>2^53\<close>.
\<close>

fun digits :: "nat \<Rightarrow> string" where
  "digits n = (if n < 10 then [''0123456789'' ! n] else digits (n div 10) @ [''0123456789'' ! (n mod 10)])"

declare digits.simps [simp del]

definition number_text :: "int \<Rightarrow> string" where
  "number_text i = (if i < 0 then CHR ''-'' # digits (nat (- i)) else digits (nat i))"

subsection \<open>State translator\<close>

definition toBindingDirection :: "ProgressDirection \<Rightarrow> error + binding_ProgressDirection" where
  "toBindingDirection direction =
     (case direction of
        Download \<Rightarrow> Inr B_download
      | Upload \<Rightarrow> Inr B_upload
      | UnexpectedDirection v \<Rightarrow> Inl (UnrecognizedEnumValue (''Unexpected direction: '' @ v)))"

definition fromBindingConnectionState ::
  "binding_SyncSessionConnectionState \<Rightarrow> error + ConnectionState" where
  "fromBindingConnectionState state =
     (case state of
        B_Connected \<Rightarrow> Inr Connected
      | B_Connecting \<Rightarrow> Inr Connecting
      | B_Disconnected \<Rightarrow> Inr Disconnected
      | B_UnknownConnectionState c \<Rightarrow>
          Inl (UnrecognizedEnumValue (''Unexpected state: '' @ number_text c)))"

definition fromBindingSessionState :: "binding_SyncSessionState \<Rightarrow> SessionState" where
  "fromBindingSessionState state =
     (if state = B_Inactive then Inactive else Active)"

subsection \<open>The engine\<close>

text \<open>
  The engine is outside this layer. A session handle (\<^verbatim>\<open>binding.SyncSession\<close>) is a
  reference, here a number; what the facade reads through it is a record of the engine's
  current values for that handle. The calls the facade makes on a handle are recorded in
  order, oldest first. A registration returns a token chosen by the engine: \<open>issue e cs\<close>
  is the token the engine \<open>e\<close> hands out for a registration made after the calls \<open>cs\<close>.
\<close>

type_synonym handle = nat

type_synonym callback = nat
  \<comment> \<open>a caller's function object, by identity\<close>

datatype outcome = Fulfilled | Rejected error

datatype CompletionSignal = SettlesAt nat outcome | NeverSettles
  \<comment> \<open>a promise of the engine: the time it settles at, counted from the call, and how\<close>

record binding_SyncConfig =
  partitionValue :: string
  flxSyncRequested :: bool

record binding_SyncSession =
  user :: nat
  config :: binding_SyncConfig
  state :: binding_SyncSessionState
  connectionState :: binding_SyncSessionConnectionState
  fullRealmUrl :: "string option"
  waitForDownloadCompletion :: CompletionSignal
  waitForUploadCompletion :: CompletionSignal

datatype engine_call =
    registerProgressNotifier handle callback binding_ProgressDirection bool
  | unregisterProgressNotifier handle int
  | registerConnectionChangeCallback handle callback
  | unregisterConnectionChangeCallback handle int
  | logOut handle
  | reviveIfNeeded handle

record engine =
  sessions :: "handle \<Rightarrow> binding_SyncSession"
  calls :: "engine_call list"
  issue :: "engine_call list \<Rightarrow> int"

definition engine_invoke :: "engine_call \<Rightarrow> engine \<Rightarrow> engine" where
  "engine_invoke c e = e\<lparr>calls := calls e @ [c]\<rparr>"

subsection \<open>Listener registry\<close>

record ListenerToken =
  internal :: handle
  token :: int

record ('cb, 'tok, 'args) ListenersOptions =
  throwOnReAdd :: bool
  register :: "'cb \<Rightarrow> 'args \<Rightarrow> engine \<Rightarrow> (error + 'tok) \<times> engine"
  unregister :: "'tok \<Rightarrow> engine \<Rightarrow> engine"

text \<open>
  Modelled from the spec: the class \<^verbatim>\<open>Listeners\<close> is imported from \<^verbatim>\<open>../internal\<close> and
  is not part of the source file. After section 4.2 of the specification:
  \<^verbatim>\<open>add\<close> fails with DuplicateRegistration when the callback has a live entry, and
  otherwise calls the register primitive and records the returned token under the
  callback; \<^verbatim>\<open>remove\<close> does nothing when the callback has no live entry, and otherwise
  calls the unregister primitive with the stored token and deletes the entry.
  Both registries of the source are built with \<^verbatim>\<open>throwOnReAdd: true\<close>, the behaviour the
  specification describes; with the option off a second \<^verbatim>\<open>add\<close> is taken to do nothing.
  A register primitive that throws leaves the entries as they were.
\<close>

definition Listeners_add ::
  "('cb, 'tok, 'args) ListenersOptions \<Rightarrow> 'cb \<Rightarrow> 'args \<Rightarrow> ('cb \<rightharpoonup> 'tok) \<times> engine
     \<Rightarrow> (error + unit) \<times> ('cb \<rightharpoonup> 'tok) \<times> engine" where
  "Listeners_add options cb args st =
     (case st of (listeners, e) \<Rightarrow>
        if listeners cb \<noteq> None then
          (if throwOnReAdd options then (Inl DuplicateRegistration, listeners, e)
           else (Inr (), listeners, e))
        else
          (case register options cb args e of
             (Inl err, e') \<Rightarrow> (Inl err, listeners, e')
           | (Inr tok, e') \<Rightarrow> (Inr (), listeners(cb \<mapsto> tok), e')))"

definition Listeners_remove ::
  "('cb, 'tok, 'args) ListenersOptions \<Rightarrow> 'cb \<Rightarrow> ('cb \<rightharpoonup> 'tok) \<times> engine
     \<Rightarrow> (error + unit) \<times> ('cb \<rightharpoonup> 'tok) \<times> engine" where
  "Listeners_remove options cb st =
     (case st of (listeners, e) \<Rightarrow>
        (case listeners cb of
           None \<Rightarrow> (Inr (), listeners, e)
         | Some tok \<Rightarrow> (Inr (), listeners(cb := None), unregister options tok e)))"

definition PROGRESS_LISTENERS ::
  "(callback, ListenerToken, handle \<times> ProgressDirection \<times> ProgressMode) ListenersOptions" where
  "PROGRESS_LISTENERS =
     \<lparr>throwOnReAdd = True,
      register = (\<lambda>cb (h, direction, mode) e.
         case toBindingDirection direction of
           Inl err \<Rightarrow> (Inl err, e)
         | Inr d \<Rightarrow>
             (Inr \<lparr>internal = h, token = issue e (calls e)\<rparr>,
              engine_invoke (registerProgressNotifier h cb d (mode = ReportIndefinitely)) e)),
      unregister = (\<lambda>t e. engine_invoke (unregisterProgressNotifier (internal t) (token t)) e)\<rparr>"

definition CONNECTION_LISTENERS :: "(callback, ListenerToken, handle) ListenersOptions" where
  "CONNECTION_LISTENERS =
     \<lparr>throwOnReAdd = True,
      register = (\<lambda>cb h e.
         (Inr \<lparr>internal = h, token = issue e (calls e)\<rparr>,
          engine_invoke (registerConnectionChangeCallback h cb) e)),
      unregister = (\<lambda>t e. engine_invoke (unregisterProgressNotifier (internal t) (token t)) e)\<rparr>"

subsection \<open>Deadline-bound waiter\<close>






subsection \<open>Session facade\<close>

record SyncSession =
  internal :: handle

text \<open>
  The facade's world: the engine and the entries of the two module-level registries,
  which every \<open>SyncSession\<close> shares.
\<close>

record world =
  the_engine :: engine
  progress_listeners :: "callback \<rightharpoonup> ListenerToken"
  connection_listeners :: "callback \<rightharpoonup> ListenerToken"

datatype App = Empty_object

datatype User = User nat App

record 'pv SyncConfiguration =
  user :: User
  flexible :: "bool option"
  partitionValue :: "'pv option"
  \<comment> \<open>an object literal: \<open>None\<close> is a key the object does not have\<close>

definition handle_of :: "SyncSession \<Rightarrow> engine \<Rightarrow> binding_SyncSession" where
  "handle_of s e = sessions e (SyncSession.internal s)"

text \<open>
  \<^verbatim>\<open>EJSON.parse\<close> belongs to the library \<^verbatim>\<open>bson\<close>; it is a parameter of \<open>get_config\<close>,
  \<open>None\<close> where it throws on a malformed text. The getter has no handler around the
  call, so what the parser throws leaves the getter.
\<close>

definition get_config ::
  "(string \<Rightarrow> 'pv option) \<Rightarrow> SyncSession \<Rightarrow> engine \<Rightarrow> error + 'pv SyncConfiguration" where
  "get_config EJSON_parse s e =
     (let usr = User (binding_SyncSession.user (handle_of s e)) Empty_object;
          c = config (handle_of s e)
      in if flxSyncRequested c then
           Inr \<lparr>user = usr, flexible = Some True, partitionValue = None\<rparr>
         else
           (case EJSON_parse (binding_SyncConfig.partitionValue c) of
              None \<Rightarrow> Inl ConfigDecodeError
            | Some v \<Rightarrow> Inr \<lparr>user = usr, flexible = None, partitionValue = Some v\<rparr>))"

definition get_state :: "SyncSession \<Rightarrow> engine \<Rightarrow> SessionState" where
  "get_state s e = fromBindingSessionState (state (handle_of s e))"

definition get_url :: "SyncSession \<Rightarrow> engine \<Rightarrow> error + string" where
  \<comment> \<open>\<^verbatim>\<open>if (url)\<close>: an absent value and the empty string are falsy\<close>
  "get_url s e =
     (case fullRealmUrl (handle_of s e) of
        Some url \<Rightarrow>
          if url \<noteq> [] then Inr url else Inl (UrlUnavailable ''Unable to determine URL'')
      | None \<Rightarrow> Inl (UrlUnavailable ''Unable to determine URL''))"

definition get_connectionState :: "SyncSession \<Rightarrow> engine \<Rightarrow> error + ConnectionState" where
  "get_connectionState s e = fromBindingConnectionState (connectionState (handle_of s e))"

definition isConnected :: "SyncSession \<Rightarrow> engine \<Rightarrow> bool" where
  "isConnected s e =
     (connectionState (handle_of s e) = B_Connected \<and>
      (state (handle_of s e) = B_Active \<or> state (handle_of s e) = B_Dying))"

definition pause :: "SyncSession \<Rightarrow> engine \<Rightarrow> engine" where
  "pause s e = engine_invoke (logOut (SyncSession.internal s)) e"

definition resume :: "SyncSession \<Rightarrow> engine \<Rightarrow> engine" where
  "resume s e = engine_invoke (reviveIfNeeded (SyncSession.internal s)) e"

definition on_progress ::
  "(((callback \<rightharpoonup> ListenerToken) \<times> engine) \<Rightarrow> (error + unit) \<times> (callback \<rightharpoonup> ListenerToken) \<times> engine)
     \<Rightarrow> world \<Rightarrow> (error + unit) \<times> world" where
  "on_progress f w =
     (case f (progress_listeners w, the_engine w) of
        (r, ls, e) \<Rightarrow> (r, w\<lparr>the_engine := e, progress_listeners := ls\<rparr>))"

definition on_connection ::
  "(((callback \<rightharpoonup> ListenerToken) \<times> engine) \<Rightarrow> (error + unit) \<times> (callback \<rightharpoonup> ListenerToken) \<times> engine)
     \<Rightarrow> world \<Rightarrow> (error + unit) \<times> world" where
  "on_connection f w =
     (case f (connection_listeners w, the_engine w) of
        (r, ls, e) \<Rightarrow> (r, w\<lparr>the_engine := e, connection_listeners := ls\<rparr>))"

definition addProgressNotification ::
  "SyncSession \<Rightarrow> ProgressDirection \<Rightarrow> ProgressMode \<Rightarrow> callback \<Rightarrow> world \<Rightarrow> (error + unit) \<times> world" where
  "addProgressNotification s direction mode cb =
     on_progress (Listeners_add PROGRESS_LISTENERS cb (SyncSession.internal s, direction, mode))"

definition removeProgressNotification ::
  "SyncSession \<Rightarrow> callback \<Rightarrow> world \<Rightarrow> (error + unit) \<times> world" where
  "removeProgressNotification s cb = on_progress (Listeners_remove PROGRESS_LISTENERS cb)"

definition addConnectionNotification ::
  "SyncSession \<Rightarrow> callback \<Rightarrow> world \<Rightarrow> (error + unit) \<times> world" where
  "addConnectionNotification s cb =
     on_connection (Listeners_add CONNECTION_LISTENERS cb (SyncSession.internal s))"

definition removeConnectionNotification ::
  "SyncSession \<Rightarrow> callback \<Rightarrow> world \<Rightarrow> (error + unit) \<times> world" where
  "removeConnectionNotification s cb = on_connection (Listeners_remove CONNECTION_LISTENERS cb)"




subsection \<open>Concrete inputs\<close>

definition session_3 :: binding_SyncSession where
  "session_3 =
     \<lparr>binding_SyncSession.user = 11,
      config = \<lparr>binding_SyncConfig.partitionValue = ''null'', flxSyncRequested = False\<rparr>,
      state = B_Dying,
      connectionState = B_Connected,
      fullRealmUrl = Some ''wss://realm.example/api'',
      waitForDownloadCompletion = NeverSettles,
      waitForUploadCompletion = SettlesAt 20 Fulfilled\<rparr>"

definition engine_with :: "binding_SyncSession \<Rightarrow> engine" where
  \<comment> \<open>an engine that has made no call yet, reads \<open>b\<close> through every handle and numbers
     its tokens by the calls made so far\<close>
  "engine_with b = \<lparr>sessions = (\<lambda>h. b), calls = [], issue = (\<lambda>cs. int (length cs))\<rparr>"

definition engine_0 :: engine where
  "engine_0 = engine_with session_3"

definition world_0 :: world where
  "world_0 =
     \<lparr>the_engine = engine_0, progress_listeners = Map.empty, connection_listeners = Map.empty\<rparr>"

definition facade_3 :: SyncSession where
  "facade_3 = \<lparr>internal = 3\<rparr>"

definition null_only :: "string \<Rightarrow> string option option" where
  \<comment> \<open>a stand-in for the parser: it decodes the text \<^verbatim>\<open>null\<close> to the partition value
     \<^verbatim>\<open>null\<close> (here \<open>None\<close>) and throws on every other text\<close>
  "null_only t = (if t = ''null'' then Some None else None)"

definition world_1 :: world where
  \<comment> \<open>callback 7 registered in both registries through handle 3\<close>
  "world_1 =
     snd (addConnectionNotification facade_3 7
       (snd (addProgressNotification facade_3 Upload ForCurrentlyOutstandingWork 7 world_0)))"

section \<open>Properties\<close>

subsection \<open>Auxiliary facts\<close>

lemma Listeners_add_live:
  "listeners cb \<noteq> None \<Longrightarrow> throwOnReAdd options \<Longrightarrow>
   Listeners_add options cb args (listeners, e) = (Inl DuplicateRegistration, listeners, e)"
  by (simp add: Listeners_add_def)

lemma Listeners_remove_absent:
  "listeners cb = None \<Longrightarrow> Listeners_remove options cb (listeners, e) = (Inr (), listeners, e)"
  by (simp add: Listeners_remove_def)

lemma Listeners_remove_live:
  "listeners cb = Some tok \<Longrightarrow>
   Listeners_remove options cb (listeners, e) =
     (Inr (), listeners(cb := None), unregister options tok e)"
  by (simp add: Listeners_remove_def)




lemma world_1_entries:
  "progress_listeners world_1 = [7 \<mapsto> \<lparr>ListenerToken.internal = 3, token = 0\<rparr>]"
  "connection_listeners world_1 = [7 \<mapsto> \<lparr>ListenerToken.internal = 3, token = 1\<rparr>]"
  "calls (the_engine world_1) =
     [registerProgressNotifier 3 7 B_upload False, registerConnectionChangeCallback 3 7]"
  by (simp_all add: world_1_def addConnectionNotification_def addProgressNotification_def
      on_connection_def on_progress_def Listeners_add_def CONNECTION_LISTENERS_def
      PROGRESS_LISTENERS_def toBindingDirection_def engine_invoke_def world_0_def engine_0_def
      engine_with_def facade_3_def)

lemma removeConnectionNotification_live:
  "connection_listeners w cb = Some t \<Longrightarrow>
   removeConnectionNotification s cb w =
     (Inr (),
      w\<lparr>the_engine :=
          engine_invoke (unregisterProgressNotifier (ListenerToken.internal t) (token t)) (the_engine w),
        connection_listeners := (connection_listeners w)(cb := None)\<rparr>)"
  by (simp add: removeConnectionNotification_def on_connection_def Listeners_remove_live
      CONNECTION_LISTENERS_def)

lemma removeProgressNotification_live:
  "progress_listeners w cb = Some t \<Longrightarrow>
   removeProgressNotification s cb w =
     (Inr (),
      w\<lparr>the_engine :=
          engine_invoke (unregisterProgressNotifier (ListenerToken.internal t) (token t)) (the_engine w),
        progress_listeners := (progress_listeners w)(cb := None)\<rparr>)"
  by (simp add: removeProgressNotification_def on_progress_def Listeners_remove_live
      PROGRESS_LISTENERS_def)

subsection \<open>The claims\<close>

text \<open>
  Claim C1. Removing a connection-notification callback that has a live entry should call
  the engine's \<^verbatim>\<open>unregisterConnectionChangeCallback\<close> with the stored token. The
  \<^verbatim>\<open>unregister\<close> option of \<open>CONNECTION_LISTENERS\<close> calls \<^verbatim>\<open>unregisterProgressNotifier\<close>
  instead: after adding callback 7 through handle 3 and removing it again, the engine has
  seen the registration of the connection callback and then an unregistration of a
  progress notifier with the connection token 0, and no call of the connection-specific
  primitive.
\<close>

theorem C1_connection_unregister_calls_progress_primitive:
  "calls (the_engine (snd (removeConnectionNotification facade_3 7
     (snd (addConnectionNotification facade_3 7 world_0)))))
   = [registerConnectionChangeCallback 3 7, unregisterProgressNotifier 3 0]"
  by (simp add: removeConnectionNotification_def addConnectionNotification_def on_connection_def
      Listeners_remove_def Listeners_add_def CONNECTION_LISTENERS_def engine_invoke_def
      world_0_def engine_0_def engine_with_def facade_3_def)



text \<open>
  Claim C3. In either registry, \<^verbatim>\<open>add\<close> with a callback that has a live entry fails with
  DuplicateRegistration and changes nothing: the entries of both registries and the
  engine, which receives no call, are as before.
\<close>

theorem C3_duplicate_registration:
  "(progress_listeners w cb \<noteq> None \<longrightarrow>
      addProgressNotification s direction mode cb w = (Inl DuplicateRegistration, w))
   \<and> (connection_listeners w cb \<noteq> None \<longrightarrow>
      addConnectionNotification s cb w = (Inl DuplicateRegistration, w))"
  by (simp add: addProgressNotification_def addConnectionNotification_def on_progress_def
      on_connection_def Listeners_add_live PROGRESS_LISTENERS_def CONNECTION_LISTENERS_def)

theorem C3_duplicate_registration_witness:
  "progress_listeners world_1 7 \<noteq> None
   \<and> addProgressNotification facade_3 Download ReportIndefinitely 7 world_1 =
       (Inl DuplicateRegistration, world_1)
   \<and> connection_listeners world_1 7 \<noteq> None
   \<and> addConnectionNotification facade_3 7 world_1 = (Inl DuplicateRegistration, world_1)"
  using C3_duplicate_registration [of world_1 7 facade_3 Download ReportIndefinitely]
  by (simp add: world_1_entries)

text \<open>
  Claim C4. \<open>fromBindingSessionState\<close> is total and never fails: the engine's Inactive
  becomes Inactive, and every other engine state (Active, Invalid, Dying, or any other
  native code) becomes Active.
\<close>

theorem C4_session_state_translation:
  "fromBindingSessionState B_Inactive = Inactive
   \<and> fromBindingSessionState B_Active = Active
   \<and> fromBindingSessionState B_Invalid = Active
   \<and> fromBindingSessionState B_Dying = Active
   \<and> fromBindingSessionState (B_UnknownSessionState c) = Active
   \<and> (fromBindingSessionState st = Inactive \<longleftrightarrow> st = B_Inactive)
   \<and> (fromBindingSessionState st = Active \<longleftrightarrow> st \<noteq> B_Inactive)"
  by (simp add: fromBindingSessionState_def)

text \<open>
  Claim C5. \<open>isConnected\<close> is true exactly when the engine's connection state is
  Connected and its session state is Active or Dying; over the table
  \<open>{Disconnected, Connecting, Connected} \<times> {Active, Inactive, Invalid, Dying}\<close> it is true
  at (Connected, Active) and (Connected, Dying) and false at the ten other entries.
\<close>

theorem C5_isConnected_truth_table:
  "isConnected s e =
     (connectionState (handle_of s e) = B_Connected \<and> state (handle_of s e) \<in> {B_Active, B_Dying})
   \<and> (\<forall>c \<in> {B_Disconnected, B_Connecting, B_Connected}.
       \<forall>st \<in> {B_Active, B_Inactive, B_Invalid, B_Dying}.
         connectionState (handle_of s e) = c \<and> state (handle_of s e) = st \<longrightarrow>
           isConnected s e = ((c, st) = (B_Connected, B_Active) \<or> (c, st) = (B_Connected, B_Dying)))"
  by (auto simp add: isConnected_def)

theorem C5_isConnected_truth_table_witness:
  "connectionState (handle_of facade_3 engine_0) = B_Connected
   \<and> state (handle_of facade_3 engine_0) = B_Dying
   \<and> isConnected facade_3 engine_0
   \<and> connectionState (handle_of facade_3 (engine_with (session_3\<lparr>state := B_Invalid\<rparr>))) = B_Connected
   \<and> state (handle_of facade_3 (engine_with (session_3\<lparr>state := B_Invalid\<rparr>))) = B_Invalid
   \<and> \<not> isConnected facade_3 (engine_with (session_3\<lparr>state := B_Invalid\<rparr>))"
  using C5_isConnected_truth_table [of facade_3 engine_0]
    C5_isConnected_truth_table [of facade_3 "engine_with (session_3\<lparr>state := B_Invalid\<rparr>)"]
  by (simp add: handle_of_def engine_0_def engine_with_def session_3_def)

text \<open>
  Claim C6. \<open>fromBindingConnectionState\<close> sends the three known engine connection states
  to the three public ones, each to its namesake, and fails with UnrecognizedEnumValue on
  every other engine value; \<open>toBindingDirection\<close> sends Download and Upload to the
  engine's download and upload and fails with UnrecognizedEnumValue on every other input.
  Neither has a default.
\<close>

theorem C6_enum_translation_never_defaults:
  "fromBindingConnectionState B_Connected = Inr Connected
   \<and> fromBindingConnectionState B_Connecting = Inr Connecting
   \<and> fromBindingConnectionState B_Disconnected = Inr Disconnected
   \<and> (st \<notin> {B_Connected, B_Connecting, B_Disconnected} \<longrightarrow>
        (\<exists>msg. fromBindingConnectionState st = Inl (UnrecognizedEnumValue msg)))
   \<and> toBindingDirection Download = Inr B_download
   \<and> toBindingDirection Upload = Inr B_upload
   \<and> (d \<notin> {Download, Upload} \<longrightarrow>
        (\<exists>msg. toBindingDirection d = Inl (UnrecognizedEnumValue msg)))"
  by (cases st; cases d) (simp_all add: fromBindingConnectionState_def toBindingDirection_def)

theorem C6_enum_translation_never_defaults_witness:
  "B_UnknownConnectionState 7 \<notin> {B_Connected, B_Connecting, B_Disconnected}
   \<and> fromBindingConnectionState (B_UnknownConnectionState 7) =
       Inl (UnrecognizedEnumValue ''Unexpected state: 7'')
   \<and> UnexpectedDirection ''sideways'' \<notin> {Download, Upload}
   \<and> toBindingDirection (UnexpectedDirection ''sideways'') =
       Inl (UnrecognizedEnumValue ''Unexpected direction: sideways'')"
  using C6_enum_translation_never_defaults
    [of "B_UnknownConnectionState 7" "UnexpectedDirection ''sideways''"]
  by (simp add: fromBindingConnectionState_def toBindingDirection_def number_text_def digits.simps)

text \<open>
  Claim C7. In either registry, \<^verbatim>\<open>remove\<close> with a callback that has no live entry returns
  normally and changes nothing: no call reaches the engine and the entries of both
  registries are as before.
\<close>

theorem C7_remove_without_entry:
  "(progress_listeners w cb = None \<longrightarrow> removeProgressNotification s cb w = (Inr (), w))
   \<and> (connection_listeners w cb = None \<longrightarrow> removeConnectionNotification s cb w = (Inr (), w))"
  by (simp add: removeProgressNotification_def removeConnectionNotification_def on_progress_def
      on_connection_def Listeners_remove_absent)

theorem C7_remove_without_entry_witness:
  "progress_listeners world_1 8 = None
   \<and> removeProgressNotification facade_3 8 world_1 = (Inr (), world_1)
   \<and> connection_listeners world_1 8 = None
   \<and> removeConnectionNotification facade_3 8 world_1 = (Inr (), world_1)"
  using C7_remove_without_entry [of world_1 8 facade_3]
  by (simp add: world_1_entries)

text \<open>
  Claim C8. The \<^verbatim>\<open>url\<close> getter fails with UrlUnavailable when the engine's
  \<^verbatim>\<open>fullRealmUrl\<close> is absent or empty, returns the engine's URL otherwise, and never
  returns the empty string.
\<close>

theorem C8_url:
  "(fullRealmUrl (handle_of s e) = None \<or> fullRealmUrl (handle_of s e) = Some [] \<longrightarrow>
      get_url s e = Inl (UrlUnavailable ''Unable to determine URL''))
   \<and> (\<forall>u. fullRealmUrl (handle_of s e) = Some u \<and> u \<noteq> [] \<longrightarrow> get_url s e = Inr u)
   \<and> get_url s e \<noteq> Inr []"
  by (auto simp add: get_url_def split: option.splits)

theorem C8_url_witness:
  "fullRealmUrl (handle_of facade_3 (engine_with (session_3\<lparr>fullRealmUrl := None\<rparr>))) = None
   \<and> get_url facade_3 (engine_with (session_3\<lparr>fullRealmUrl := None\<rparr>)) =
       Inl (UrlUnavailable ''Unable to determine URL'')
   \<and> fullRealmUrl (handle_of facade_3 (engine_with (session_3\<lparr>fullRealmUrl := Some []\<rparr>))) = Some []
   \<and> get_url facade_3 (engine_with (session_3\<lparr>fullRealmUrl := Some []\<rparr>)) =
       Inl (UrlUnavailable ''Unable to determine URL'')
   \<and> fullRealmUrl (handle_of facade_3 engine_0) = Some ''wss://realm.example/api''
   \<and> get_url facade_3 engine_0 = Inr ''wss://realm.example/api''"
  using C8_url [of facade_3 "engine_with (session_3\<lparr>fullRealmUrl := None\<rparr>)"]
    C8_url [of facade_3 "engine_with (session_3\<lparr>fullRealmUrl := Some []\<rparr>)"]
    C8_url [of facade_3 engine_0]
  by (simp add: handle_of_def engine_0_def engine_with_def session_3_def)

text \<open>
  Claim C9. The \<^verbatim>\<open>config\<close> getter returns the user wrapped around the engine's user and
  exactly one scoping strategy. When the engine's configuration requests flexible sync
  the result has \<^verbatim>\<open>flexible: true\<close> and no partition value, and the stored partition
  text is not decoded. Otherwise the result has no \<^verbatim>\<open>flexible\<close> key and the partition
  value the parser decodes from the stored text, and a text the parser rejects makes the
  getter fail with ConfigDecodeError.
\<close>

theorem C9_config:
  "(flxSyncRequested (config (handle_of s e)) \<longrightarrow>
      get_config parse s e =
        Inr \<lparr>user = User (binding_SyncSession.user (handle_of s e)) Empty_object,
             flexible = Some True, partitionValue = None\<rparr>)
   \<and> (\<not> flxSyncRequested (config (handle_of s e)) \<longrightarrow>
        (\<forall>v. parse (binding_SyncConfig.partitionValue (config (handle_of s e))) = Some v \<longrightarrow>
           get_config parse s e =
             Inr \<lparr>user = User (binding_SyncSession.user (handle_of s e)) Empty_object,
                  flexible = None, partitionValue = Some v\<rparr>)
        \<and> (parse (binding_SyncConfig.partitionValue (config (handle_of s e))) = None \<longrightarrow>
           get_config parse s e = Inl ConfigDecodeError))"
  by (simp add: get_config_def Let_def)

theorem C9_config_witness:
  "get_config null_only facade_3 engine_0 =
     Inr \<lparr>user = User 11 Empty_object, flexible = None, partitionValue = Some None\<rparr>
   \<and> get_config null_only facade_3
        (engine_with (session_3\<lparr>config := \<lparr>binding_SyncConfig.partitionValue = ''{'', flxSyncRequested = False\<rparr>\<rparr>)) =
     Inl ConfigDecodeError
   \<and> get_config null_only facade_3
        (engine_with (session_3\<lparr>config := \<lparr>binding_SyncConfig.partitionValue = ''{'', flxSyncRequested = True\<rparr>\<rparr>)) =
     Inr \<lparr>user = User 11 Empty_object, flexible = Some True, partitionValue = None\<rparr>"
  using C9_config [of facade_3 engine_0 null_only]
    C9_config [of facade_3 "engine_with (session_3\<lparr>config := \<lparr>binding_SyncConfig.partitionValue = ''{'', flxSyncRequested = False\<rparr>\<rparr>)" null_only]
    C9_config [of facade_3 "engine_with (session_3\<lparr>config := \<lparr>binding_SyncConfig.partitionValue = ''{'', flxSyncRequested = True\<rparr>\<rparr>)" null_only]
  by (simp add: handle_of_def engine_0_def engine_with_def session_3_def null_only_def)

text \<open>
  Claim C10. The \<^verbatim>\<open>state\<close> getter returns Active or Inactive for every engine session
  state; it never returns the public value Invalid.
\<close>

theorem C10_state_never_invalid:
  "get_state s e \<noteq> Invalid \<and> get_state s e \<in> {Active, Inactive}"
  by (simp add: get_state_def fromBindingSessionState_def)

end
